theory Spec2Isabelle
  imports Complex_Main
begin

section \<open>rpwavgen: the repeater WAV generator\<close>

text \<open>
  A shallow embedding of \<^verbatim>\<open>src/rpwavgen.py\<close>. The Python functions keep their names.
  What the program gets from outside (the file system, the speech synthesizer of the
  platform, pydub with its ffmpeg back end, the \<^verbatim>\<open>wave\<close> module) is a parameter
  of the model, collected in the record \<open>env\<close>; the files, the text printed and the
  calls made are the record \<open>world\<close>, threaded through every function. A Python
  exception is the left summand of the result, returned together with the world as the
  exception leaves it.
\<close>

subsection \<open>Constants and the profile\<close>

text \<open>
  \<^verbatim>\<open>WAV_FORMAT\<close> is a dict with fixed keys, modelled as a record. Its numbers are Python
  ints; \<open>max_length\<close> is only compared with a float and is kept as a rational, so that a
  profile with a fractional limit is covered too.
\<close>

record wav_format =
  filename :: string
  format :: string
  max_length :: rat
  sampling_rate :: int
  bit_rate :: int
  channel :: int
  modulation :: string

definition FILE_NAME :: string where
  "FILE_NAME = ''Speech.wav''"

definition WAV_FORMAT :: wav_format where
  "WAV_FORMAT = \<lparr>filename = FILE_NAME, format = ''wav'', max_length = 10,
     sampling_rate = 16, bit_rate = 16, channel = 1, modulation = ''PCM''\<rparr>"

definition NARRATOR :: string where
  "NARRATOR = ''com.apple.voice.enhanced.en-US.Allison''"

definition RATE :: int where
  "RATE = 175"

subsection \<open>Floats\<close>

text \<open>
  A Python float is a finite double (a dyadic rational), an infinity or NaN. A comparison
  with NaN is false. \<open>FLOAT_0_01\<close> is the double that the literal \<^verbatim>\<open>0.01\<close> denotes,
  5764607523034235 / 2^59, slightly above one hundredth.
\<close>

datatype pyfloat = Fin rat | PInf | NInf | NaN

fun float_le :: "pyfloat \<Rightarrow> pyfloat \<Rightarrow> bool" where
  "float_le NaN _ = False"
| "float_le _ NaN = False"
| "float_le NInf _ = True"
| "float_le _ PInf = True"
| "float_le (Fin a) (Fin b) = (a \<le> b)"
| "float_le _ _ = False"

definition FLOAT_0_01 :: rat where
  "FLOAT_0_01 = 5764607523034235 / 576460752303423488"

subsection \<open>Audio, files, messages, errors\<close>

text \<open>
  \<open>audio\<close> holds what pydub and the \<^verbatim>\<open>wave\<close> module report of a sound: the number of
  frames, the frame rate in Hz, the sample width in bytes, the number of channels and the
  compression type of the container.
\<close>

record audio =
  n_frames :: nat
  frame_rate :: int
  sample_width :: int
  channels :: int
  comp_type :: string

text \<open>
  A file is a RIFF/WAVE file, which pydub and the \<^verbatim>\<open>wave\<close> module both read, a sound
  in another container (the AIFF that the synthesizer writes, say), which only pydub
  reads, or something that neither decodes.
\<close>

datatype content = Wave audio | Other audio | Undecodable

text \<open>
  An exception of the program. \<open>ArgumentError a r\<close> is the error of \<^verbatim>\<open>argparse\<close> for the
  argument \<open>a\<close>, which prints the usage and leaves the program with status 2 before
  \<^verbatim>\<open>parse_args\<close> has returned.
\<close>

datatype argument_error =
    Type_error string
  | Invalid_value string
  | Invalid_choice string
  | Not_allowed_with string

datatype error =
    ArgumentTypeError string
  | ArgumentError string argument_error
  | ValueError string
  | OSError string
  | FileNotFoundError string
  | CouldntDecodeError string
  | WaveError string

text \<open>
  One constructor for each \<^verbatim>\<open>print\<close> of the program, with the values it interpolates in
  the order of the text: \<open>Wrong_bit_rate a b\<close> is
  \<^verbatim>\<open>File has wrong bit rate [a != b]\<close>.
\<close>

datatype message =
    Sample_Width int
  | Frame_Rate int
  | Number_of_Channels int
  | Number_of_Frames nat
  | Compression_Type string
  | Likely_PCM
  | Might_not_be_PCM
  | Too_long rat rat
  | Wrong_bit_rate int int
  | Wrong_sampling_rate int rat
  | Wrong_channel_count int int
  | Wrong_modulation_type string string
  | Invalid_options

datatype call =
    Call_text_to_speech string
  | Call_convert_to_wav string string
  | Call_remove_file string
  | Call_validate_wav string

text \<open>
  The world: the files, the lines printed, the calls of the four operations of the
  pipeline in the order they were made, and how often the voices of the platform have
  been enumerated.
\<close>

record world =
  files :: "string \<rightharpoonup> content"
  stdout :: "message list"
  calls :: "call list"
  voice_queries :: nat

text \<open>
  The outside of the program.
  \<^item> \<open>resolve\<close>: the file a path names (so that \<^verbatim>\<open>./x\<close> and \<^verbatim>\<open>x\<close> can be one file);
    \<open>files\<close> is keyed by it.
  \<^item> \<open>writable\<close>: a file can be created or overwritten there.
  \<^item> \<open>undeletable\<close>: the operating system refuses to remove what is there (a directory,
    a file without permission), and \<open>strerror\<close> is the text of the exception it raises
    for the path.
  \<^item> \<open>availableVoices\<close>: the voices of the platform.
  \<^item> \<open>synthesize\<close>: the sound the synthesizer produces for a text, a voice, a volume and
    a rate (\<open>None\<close> where the program leaves the synthesizer's default).
  \<^item> \<open>isSpeaking\<close>: the answer to the \<open>n\<close>-th poll of \<^verbatim>\<open>speech.isSpeaking()\<close>.
  \<^item> \<open>ratecv\<close>: the number of frames after resampling (frames, old rate, new rate).
  \<^item> \<open>ffmpeg\<close>: the file that \<^verbatim>\<open>export\<close> writes for a codec, a bitrate and a sound, as
    the libraries read it back.
\<close>

record env =
  resolve :: "string \<Rightarrow> string"
  writable :: "string \<Rightarrow> bool"
  undeletable :: "string \<Rightarrow> bool"
  strerror :: "string \<Rightarrow> string"
  availableVoices :: "string list"
  synthesize :: "string \<Rightarrow> string \<Rightarrow> rat option \<Rightarrow> int option \<Rightarrow> audio"
  isSpeaking :: "nat \<Rightarrow> bool"
  ratecv :: "nat \<Rightarrow> int \<Rightarrow> int \<Rightarrow> nat"
  ffmpeg :: "string \<Rightarrow> string \<Rightarrow> audio \<Rightarrow> audio"

text \<open>
  The parsed arguments. \<^verbatim>\<open>text\<close> and \<^verbatim>\<open>input\<close> are \<^verbatim>\<open>None\<close> or a string and are only
  tested for truth before use: \<^verbatim>\<open>None\<close> and the empty string are both \<open>''''\<close> here.
\<close>

record pargs =
  p_text :: string
  p_input :: string
  p_convert :: bool
  p_validate :: bool
  p_output :: string
  p_gain :: rat
  p_rate :: int
  p_narrator :: string

definition print :: "message \<Rightarrow> world \<Rightarrow> world" where
  "print m w = w\<lparr>stdout := stdout w @ [m]\<rparr>"

definition called :: "call \<Rightarrow> world \<Rightarrow> world" where
  "called c w = w\<lparr>calls := calls w @ [c]\<rparr>"

subsection \<open>check_gain\<close>

text \<open>
  \<^verbatim>\<open>float(value)\<close> is the parameter \<open>float_of\<close>: \<open>None\<close> is its \<^verbatim>\<open>ValueError\<close>.
\<close>

definition check_gain :: "(string \<Rightarrow> pyfloat option) \<Rightarrow> string \<Rightarrow> error + pyfloat" where
  "check_gain float_of v =
     (case float_of v of
        None \<Rightarrow> Inl (ArgumentTypeError (v @ '' is an invalid gain value. Use a float.''))
      | Some fvalue \<Rightarrow>
          if float_le (Fin FLOAT_0_01) fvalue \<and> float_le fvalue (Fin 1) then Inr fvalue
          else Inl (ArgumentTypeError ''Gain must be between 0.01 and 1.0''))"

subsection \<open>pydub\<close>

text \<open>
  \<^verbatim>\<open>AudioSegment.from_file\<close> raises on a missing file and on one it cannot decode;
  \<^verbatim>\<open>wave.open\<close> raises also on a file that is not a WAVE file. A WAVE file is kept as
  its header, which is what the \<^verbatim>\<open>wave\<close> module reports; pydub reports the same, except
  that it widens samples of three bytes to four.
  \<^verbatim>\<open>duration_seconds\<close> is the frame count over the frame rate, \<open>0.0\<close> at rate 0. The
  setters return the segment itself when nothing changes.
\<close>

definition pydub_width :: "int \<Rightarrow> int" where
  "pydub_width sw = (if sw = 3 then 4 else sw)"

definition from_file :: "env \<Rightarrow> string \<Rightarrow> world \<Rightarrow> error + audio" where
  "from_file e file_name w =
     (case files w (resolve e file_name) of
        None \<Rightarrow> Inl (FileNotFoundError file_name)
      | Some Undecodable \<Rightarrow> Inl (CouldntDecodeError file_name)
      | Some (Wave a) \<Rightarrow> Inr (a\<lparr>sample_width := pydub_width (sample_width a)\<rparr>)
      | Some (Other a) \<Rightarrow> Inr a)"

definition wave_open :: "env \<Rightarrow> string \<Rightarrow> world \<Rightarrow> error + audio" where
  "wave_open e file_name w =
     (case files w (resolve e file_name) of
        None \<Rightarrow> Inl (FileNotFoundError file_name)
      | Some (Wave a) \<Rightarrow> Inr a
      | Some _ \<Rightarrow> Inl (WaveError file_name))"

definition duration_seconds :: "audio \<Rightarrow> rat" where
  "duration_seconds a =
     (if frame_rate a = 0 then 0 else of_nat (n_frames a) / of_int (frame_rate a))"

definition set_frame_rate :: "env \<Rightarrow> audio \<Rightarrow> int \<Rightarrow> audio" where
  "set_frame_rate e sound r =
     (if r = frame_rate sound then sound
      else sound\<lparr>n_frames := ratecv e (n_frames sound) (frame_rate sound) r, frame_rate := r\<rparr>)"

definition set_sample_width :: "audio \<Rightarrow> int \<Rightarrow> audio" where
  "set_sample_width sound sw =
     (if sw = sample_width sound then sound else sound\<lparr>sample_width := sw\<rparr>)"

definition set_channels :: "audio \<Rightarrow> int \<Rightarrow> audio" where
  "set_channels sound c =
     (if c = channels sound then sound else sound\<lparr>channels := c\<rparr>)"

definition export :: "env \<Rightarrow> audio \<Rightarrow> string \<Rightarrow> string \<Rightarrow> string \<Rightarrow> world \<Rightarrow> (error + unit) \<times> world" where
  "export e sound out_f codec bitrate w =
     (if writable e (resolve e out_f)
      then (Inr (), w\<lparr>files := (files w)(resolve e out_f \<mapsto> Wave (ffmpeg e codec bitrate sound))\<rparr>)
      else (Inl (FileNotFoundError out_f), w))"

subsection \<open>validate_wav_mod and validate_wav\<close>

definition validate_wav_mod :: "env \<Rightarrow> string \<Rightarrow> world \<Rightarrow> (error + bool) \<times> world" where
  "validate_wav_mod e file_name w =
     (case wave_open e file_name w of
        Inl err \<Rightarrow> (Inl err, w)
      | Inr wav_file \<Rightarrow>
          let w1 = print (Sample_Width (sample_width wav_file * 8)) w;
              w2 = print (Frame_Rate (frame_rate wav_file)) w1;
              w3 = print (Number_of_Channels (channels wav_file)) w2;
              w4 = print (Number_of_Frames (n_frames wav_file)) w3;
              w5 = print (Compression_Type (comp_type wav_file)) w4
          in if comp_type wav_file = ''NONE'' then (Inr True, print Likely_PCM w5)
             else (Inr False, print Might_not_be_PCM w5))"

definition validate_wav :: "env \<Rightarrow> string \<Rightarrow> wav_format \<Rightarrow> world \<Rightarrow> (error + bool) \<times> world" where
  "validate_wav e file_name wav_fmt w0 =
     (let w = called (Call_validate_wav file_name) w0 in
      case from_file e file_name w of
        Inl err \<Rightarrow> (Inl err, w)
      | Inr wav_file \<Rightarrow>
          let bit_rate' = bit_rate wav_fmt * 1000;
              sampling_rate' = (of_int (sampling_rate wav_fmt) :: rat) / 8
          in case validate_wav_mod e file_name w of
               (Inl err, w') \<Rightarrow> (Inl err, w')
             | (Inr pcm, w') \<Rightarrow>
                 let file_modulation = (if pcm then ''PCM'' else ''Not PCM'') in
                 if duration_seconds wav_file > max_length wav_fmt
                 then (Inr False, print (Too_long (duration_seconds wav_file) (max_length wav_fmt)) w')
                 else if frame_rate wav_file \<noteq> bit_rate'
                 then (Inr False, print (Wrong_bit_rate (frame_rate wav_file) bit_rate') w')
                 else if of_int (sample_width wav_file) \<noteq> sampling_rate'
                 then (Inr False, print (Wrong_sampling_rate (sample_width wav_file) sampling_rate') w')
                 else if channels wav_file \<noteq> channel wav_fmt
                 then (Inr False, print (Wrong_channel_count (channels wav_file) (channel wav_fmt)) w')
                 else if file_modulation \<noteq> modulation wav_fmt
                 then (Inr False, print (Wrong_modulation_type file_modulation (modulation wav_fmt)) w')
                 else (Inr True, w'))"

subsection \<open>remove_file, convert_to_wav, text_to_speech\<close>

text \<open>
  \<^verbatim>\<open>os.remove\<close> raises an \<^verbatim>\<open>OSError\<close> when nothing is at the path and when the
  operating system refuses the removal; the left summand is the text of that exception,
  which \<^verbatim>\<open>remove_file\<close> puts into the message of the \<^verbatim>\<open>OSError\<close> it raises instead.
\<close>

definition no_such_file :: "string \<Rightarrow> string" where
  "no_such_file file_name =
     ''[Errno 2] No such file or directory: '' @ [CHR 0x27] @ file_name @ [CHR 0x27]"

definition os_remove :: "env \<Rightarrow> string \<Rightarrow> world \<Rightarrow> string + world" where
  "os_remove e file_name w =
     (if resolve e file_name \<notin> dom (files w) then Inl (no_such_file file_name)
      else if undeletable e (resolve e file_name) then Inl (strerror e file_name)
      else Inr (w\<lparr>files := (files w)(resolve e file_name := None)\<rparr>))"

definition remove_file :: "env \<Rightarrow> string \<Rightarrow> world \<Rightarrow> (error + unit) \<times> world" where
  "remove_file e file_name w0 =
     (let w = called (Call_remove_file file_name) w0 in
      case os_remove e file_name w of
        Inr w' \<Rightarrow> (Inr (), w')
      | Inl exc \<Rightarrow>
          (Inl (OSError (''Unable to remove file: '' @ file_name @ '' ('' @ exc @ '')'')), w))"

definition convert_to_wav ::
  "env \<Rightarrow> string \<Rightarrow> string \<Rightarrow> string \<Rightarrow> string \<Rightarrow> int \<Rightarrow> int \<Rightarrow> int \<Rightarrow> world \<Rightarrow> (error + unit) \<times> world" where
  "convert_to_wav e input_file output_file codec bitrate channels' sample_width' frame_rate' w0 =
     (let w = called (Call_convert_to_wav input_file output_file) w0 in
      case from_file e input_file w of
        Inl err \<Rightarrow> (Inl err, w)
      | Inr sound \<Rightarrow>
          let sound1 = set_frame_rate e sound frame_rate';
              sound2 = set_sample_width sound1 sample_width';
              sound3 = set_channels sound2 channels'
          in export e sound3 output_file codec bitrate w)"

text \<open>
  The loop \<^verbatim>\<open>while speech.isSpeaking(): pass\<close> has no bound: it returns the number of the
  first poll that answers no, and \<open>None\<close> when every poll answers yes.
\<close>

partial_function (option) wait_speaking :: "(nat \<Rightarrow> bool) \<Rightarrow> nat \<Rightarrow> nat option" where
  "wait_speaking speaking n =
     (if speaking n then wait_speaking speaking (Suc n) else Some n)"

declare wait_speaking.simps [code]

text \<open>
  \<^verbatim>\<open>if gain:\<close> and \<^verbatim>\<open>if rate:\<close> skip \<^verbatim>\<open>None\<close> and zero. The synthesizer writes to the URL
  when it can and reports nothing otherwise: the program ignores its answer.
\<close>

definition truthy :: "'a::zero option \<Rightarrow> 'a option" where
  "truthy x = (case x of None \<Rightarrow> None | Some v \<Rightarrow> if v = 0 then None else Some v)"

definition list_voices :: "env \<Rightarrow> world \<Rightarrow> string list \<times> world" where
  "list_voices e w = (availableVoices e, w\<lparr>voice_queries := voice_queries w + 1\<rparr>)"

definition text_to_speech ::
  "env \<Rightarrow> string \<Rightarrow> string \<Rightarrow> string \<Rightarrow> rat option \<Rightarrow> int option \<Rightarrow> world \<Rightarrow> ((error + unit) \<times> world) option" where
  "text_to_speech e txt output_file narrator gain rate w0 =
     (case list_voices e (called (Call_text_to_speech output_file) w0) of
        (voices, w) \<Rightarrow>
          if narrator \<notin> set voices
          then Some (Inl (ValueError (''Invalid narrator: '' @ narrator)), w)
          else
            let speech = synthesize e txt narrator (truthy gain) (truthy rate);
                w1 = (if writable e (resolve e output_file)
                      then w\<lparr>files := (files w)(resolve e output_file \<mapsto> Other speech)\<rparr>
                      else w)
            in case wait_speaking (isSpeaking e) 0 of
                 None \<Rightarrow> None
               | Some _ \<Rightarrow> Some (Inr (), w1))"

subsection \<open>generate_wav and main\<close>

text \<open>
  \<^verbatim>\<open>generate_wav\<close> calls the converter and the validator with their default arguments,
  written out here; its own \<^verbatim>\<open>wav_format\<close> argument is not used by its body. \<open>main\<close>
  is the body of \<^verbatim>\<open>main()\<close> from the parsed arguments on.
\<close>

definition temp_speech :: string where
  "temp_speech = ''temp_speech.aiff''"

definition generate_wav :: "env \<Rightarrow> pargs \<Rightarrow> wav_format \<Rightarrow> world \<Rightarrow> ((error + unit) \<times> world) option" where
  "generate_wav e pa wav_fmt w =
     (case text_to_speech e (p_text pa) temp_speech NARRATOR (Some (p_gain pa)) (Some (p_rate pa)) w of
        None \<Rightarrow> None
      | Some (Inl err, w1) \<Rightarrow> Some (Inl err, w1)
      | Some (Inr _, w1) \<Rightarrow>
          (case convert_to_wav e temp_speech (p_output pa @ ''/'' @ FILE_NAME)
                  ''pcm_s16le'' ''16k'' 1 2 16000 w1 of
             (Inl err, w2) \<Rightarrow> Some (Inl err, w2)
           | (Inr _, w2) \<Rightarrow>
               (case remove_file e (p_output pa @ ''/'' @ temp_speech) w2 of
                  (Inl err, w3) \<Rightarrow> Some (Inl err, w3)
                | (Inr _, w3) \<Rightarrow>
                    (case validate_wav e (p_output pa @ ''/'' @ FILE_NAME) WAV_FORMAT w3 of
                       (Inl err, w4) \<Rightarrow> Some (Inl err, w4)
                     | (Inr _, w4) \<Rightarrow> Some (Inr (), w4)))))"

definition main :: "env \<Rightarrow> pargs \<Rightarrow> world \<Rightarrow> ((error + unit) \<times> world) option" where
  "main e pa w =
     (if p_text pa \<noteq> '''' then generate_wav e pa WAV_FORMAT w
      else if p_input pa \<noteq> '''' \<and> p_validate pa then
        (case validate_wav e (p_input pa) WAV_FORMAT w of
           (Inl err, w') \<Rightarrow> Some (Inl err, w')
         | (Inr _, w') \<Rightarrow> Some (Inr (), w'))
      else if p_input pa \<noteq> '''' \<and> p_convert pa then
        Some (convert_to_wav e (p_input pa) (p_output pa @ ''/'' @ FILE_NAME)
                ''pcm_s16le'' ''16k'' 1 2 16000 w)
      else Some (Inr (), print Invalid_options w))"

subsection \<open>parse_args and the program on a command line\<close>

text \<open>
  The command line as \<^verbatim>\<open>argparse\<close> splits it: the options given, in their order, with
  the strings that follow them. \<^verbatim>\<open>argparse\<close> takes them one by one: it converts the
  value (\<^verbatim>\<open>type=check_gain\<close>, \<^verbatim>\<open>type=int\<close>), checks it against the choices
  (\<^verbatim>\<open>range(1,300)\<close>, \<^verbatim>\<open>list_voices()\<close>), refuses an option of a mutually exclusive
  group when the other one has been seen, and stores the value; the first error ends
  the parse. An \<^verbatim>\<open>ArgumentTypeError\<close> of the conversion becomes the error of the
  argument. \<open>int_of\<close> is \<^verbatim>\<open>int(value)\<close>, as \<open>float_of\<close> is \<^verbatim>\<open>float(value)\<close>.
  \<open>check_gain\<close> returns finite floats only, of which \<open>float_value\<close> is the number.
\<close>

datatype opt =
    Opt_text string
  | Opt_input string
  | Opt_convert
  | Opt_validate
  | Opt_output string
  | Opt_gain string
  | Opt_rate string
  | Opt_narrator string

datatype seen = Seen_text | Seen_input | Seen_convert | Seen_validate

fun float_value :: "pyfloat \<Rightarrow> rat" where
  "float_value (Fin x) = x"
| "float_value _ = 0"

definition pargs_default :: pargs where
  "pargs_default = \<lparr>p_text = [], p_input = [], p_convert = False, p_validate = False,
     p_output = ''.'', p_gain = 1, p_rate = RATE, p_narrator = NARRATOR\<rparr>"

fun take_action ::
  "string list \<Rightarrow> (string \<Rightarrow> pyfloat option) \<Rightarrow> (string \<Rightarrow> int option) \<Rightarrow> opt \<Rightarrow>
     pargs \<times> seen list \<Rightarrow> error + pargs \<times> seen list" where
  "take_action voices float_of int_of (Opt_text s) (pa, sn) =
     (if Seen_input \<in> set sn then Inl (ArgumentError ''-t/--text'' (Not_allowed_with ''-i/--input''))
      else Inr (pa\<lparr>p_text := s\<rparr>, Seen_text # sn))"
| "take_action voices float_of int_of (Opt_input s) (pa, sn) =
     (if Seen_text \<in> set sn then Inl (ArgumentError ''-i/--input'' (Not_allowed_with ''-t/--text''))
      else Inr (pa\<lparr>p_input := s\<rparr>, Seen_input # sn))"
| "take_action voices float_of int_of Opt_convert (pa, sn) =
     (if Seen_validate \<in> set sn
      then Inl (ArgumentError ''-c/--convert'' (Not_allowed_with ''-v/--validate''))
      else Inr (pa\<lparr>p_convert := True\<rparr>, Seen_convert # sn))"
| "take_action voices float_of int_of Opt_validate (pa, sn) =
     (if Seen_convert \<in> set sn
      then Inl (ArgumentError ''-v/--validate'' (Not_allowed_with ''-c/--convert''))
      else Inr (pa\<lparr>p_validate := True\<rparr>, Seen_validate # sn))"
| "take_action voices float_of int_of (Opt_output s) (pa, sn) = Inr (pa\<lparr>p_output := s\<rparr>, sn)"
| "take_action voices float_of int_of (Opt_gain s) (pa, sn) =
     (case check_gain float_of s of
        Inl (ArgumentTypeError m) \<Rightarrow> Inl (ArgumentError ''-g/--gain'' (Type_error m))
      | Inl err \<Rightarrow> Inl err
      | Inr fvalue \<Rightarrow> Inr (pa\<lparr>p_gain := float_value fvalue\<rparr>, sn))"
| "take_action voices float_of int_of (Opt_rate s) (pa, sn) =
     (case int_of s of
        None \<Rightarrow> Inl (ArgumentError ''-r/--rate'' (Invalid_value s))
      | Some n \<Rightarrow>
          if 1 \<le> n \<and> n < 300 then Inr (pa\<lparr>p_rate := n\<rparr>, sn)
          else Inl (ArgumentError ''-r/--rate'' (Invalid_choice s)))"
| "take_action voices float_of int_of (Opt_narrator s) (pa, sn) =
     (if s \<in> set voices then Inr (pa\<lparr>p_narrator := s\<rparr>, sn)
      else Inl (ArgumentError ''-n/--narrator'' (Invalid_choice s)))"

fun parse_opts ::
  "string list \<Rightarrow> (string \<Rightarrow> pyfloat option) \<Rightarrow> (string \<Rightarrow> int option) \<Rightarrow> opt list \<Rightarrow>
     pargs \<times> seen list \<Rightarrow> error + pargs \<times> seen list" where
  "parse_opts voices float_of int_of [] st = Inr st"
| "parse_opts voices float_of int_of (x # xs) st =
     (case take_action voices float_of int_of x st of
        Inl err \<Rightarrow> Inl err
      | Inr st' \<Rightarrow> parse_opts voices float_of int_of xs st')"

text \<open>
  \<^verbatim>\<open>parse_args\<close> builds the parser, which calls \<^verbatim>\<open>list_voices()\<close> for the choices of the
  narrator, and then parses the command line. \<open>script\<close> is \<^verbatim>\<open>main()\<close> run on a command
  line: \<^verbatim>\<open>parse_args()\<close> first, then the branches of \<open>main\<close> on what it returned.
\<close>

definition parse_args ::
  "env \<Rightarrow> (string \<Rightarrow> pyfloat option) \<Rightarrow> (string \<Rightarrow> int option) \<Rightarrow> opt list \<Rightarrow> world \<Rightarrow>
     (error + pargs) \<times> world" where
  "parse_args e float_of int_of argv w0 =
     (case list_voices e w0 of
        (voices, w) \<Rightarrow>
          (case parse_opts voices float_of int_of argv (pargs_default, []) of
             Inl err \<Rightarrow> (Inl err, w)
           | Inr (pa, _) \<Rightarrow> (Inr pa, w)))"

definition script ::
  "env \<Rightarrow> (string \<Rightarrow> pyfloat option) \<Rightarrow> (string \<Rightarrow> int option) \<Rightarrow> opt list \<Rightarrow> world \<Rightarrow>
     ((error + unit) \<times> world) option" where
  "script e float_of int_of argv w =
     (case parse_args e float_of int_of argv w of
        (Inl err, w') \<Rightarrow> Some (Inl err, w')
      | (Inr pa, w') \<Rightarrow> main e pa w')"

subsection \<open>The validator as the specification words it\<close>

text \<open>
  The docstring of \<^verbatim>\<open>validate_wav\<close> gives the units of the profile: the sampling rate
  in kHz, the bit rate in bits. \<open>validate_wav_corrected\<close> is \<open>validate_wav\<close> with the
  two expectations derived by these units (the frame rate from \<open>sampling_rate\<close> times
  1000, the sample width in bytes from \<open>bit_rate\<close> over 8) and nothing else changed.
  \<open>complies_as_specified\<close> is the conjunction of the specification: every field of the
  profile matches what is measured of the sound.
\<close>

definition validate_wav_corrected :: "env \<Rightarrow> string \<Rightarrow> wav_format \<Rightarrow> world \<Rightarrow> (error + bool) \<times> world" where
  "validate_wav_corrected e file_name wav_fmt w0 =
     (let w = called (Call_validate_wav file_name) w0 in
      case from_file e file_name w of
        Inl err \<Rightarrow> (Inl err, w)
      | Inr wav_file \<Rightarrow>
          let rate_hz = sampling_rate wav_fmt * 1000;
              width_bytes = (of_int (bit_rate wav_fmt) :: rat) / 8
          in case validate_wav_mod e file_name w of
               (Inl err, w') \<Rightarrow> (Inl err, w')
             | (Inr pcm, w') \<Rightarrow>
                 let file_modulation = (if pcm then ''PCM'' else ''Not PCM'') in
                 if duration_seconds wav_file > max_length wav_fmt
                 then (Inr False, print (Too_long (duration_seconds wav_file) (max_length wav_fmt)) w')
                 else if frame_rate wav_file \<noteq> rate_hz
                 then (Inr False, print (Wrong_bit_rate (frame_rate wav_file) rate_hz) w')
                 else if of_int (sample_width wav_file) \<noteq> width_bytes
                 then (Inr False, print (Wrong_sampling_rate (sample_width wav_file) width_bytes) w')
                 else if channels wav_file \<noteq> channel wav_fmt
                 then (Inr False, print (Wrong_channel_count (channels wav_file) (channel wav_fmt)) w')
                 else if file_modulation \<noteq> modulation wav_fmt
                 then (Inr False, print (Wrong_modulation_type file_modulation (modulation wav_fmt)) w')
                 else (Inr True, w'))"

definition complies_as_specified :: "wav_format \<Rightarrow> audio \<Rightarrow> bool" where
  "complies_as_specified wav_fmt a \<longleftrightarrow>
     duration_seconds a \<le> max_length wav_fmt \<and>
     frame_rate a = sampling_rate wav_fmt * 1000 \<and>
     sample_width a * 8 = bit_rate wav_fmt \<and>
     channels a = channel wav_fmt \<and>
     (if comp_type a = ''NONE'' then ''PCM'' else ''Not PCM'') = modulation wav_fmt"

text \<open>
  What the converter relies on from its back end: the codec \<^verbatim>\<open>pcm_s16le\<close> writes
  uncompressed samples of two bytes and keeps the rest of the sound.
\<close>

definition pcm_s16le_backend :: "env \<Rightarrow> bool" where
  "pcm_s16le_backend e \<longleftrightarrow>
     (\<forall>bitrate a. ffmpeg e ''pcm_s16le'' bitrate a = a\<lparr>sample_width := 2, comp_type := ''NONE''\<rparr>)"

subsection \<open>Concrete environments and inputs\<close>

text \<open>
  A small environment to run the program in: a leading \<^verbatim>\<open>./\<close> names the working
  directory, every place is writable, the default narrator is installed, the synthesizer
  speaks for two polls and produces two seconds at 22050 Hz, resampling scales the number
  of frames. \<open>env_no_outdir\<close> is the same with a working directory where only the
  temporary file can be written (the output directory does not exist).
\<close>

fun posix_resolve :: "string \<Rightarrow> string" where
  "posix_resolve (CHR ''.'' # CHR ''/'' # p) = posix_resolve p"
| "posix_resolve p = p"

definition voice_audio :: audio where
  "voice_audio = \<lparr>n_frames = 44100, frame_rate = 22050, sample_width = 2, channels = 1,
     comp_type = ''NONE''\<rparr>"

definition env_ok :: env where
  "env_ok = \<lparr>resolve = posix_resolve, writable = (\<lambda>_. True), undeletable = (\<lambda>_. False),
     strerror = (\<lambda>_. ''[Errno 13] Permission denied''), availableVoices = [NARRATOR],
     synthesize = (\<lambda>_ _ _ _. voice_audio), isSpeaking = (\<lambda>n. n < 2),
     ratecv = (\<lambda>n r r'. nat (int n * r' div r)),
     ffmpeg = (\<lambda>codec _ a.
        if codec = ''pcm_s16le'' then a\<lparr>sample_width := 2, comp_type := ''NONE''\<rparr>
        else a\<lparr>comp_type := codec\<rparr>)\<rparr>"

definition env_no_outdir :: env where
  "env_no_outdir = env_ok\<lparr>writable := (\<lambda>p. p = temp_speech)\<rparr>"

definition world_empty :: world where
  "world_empty = \<lparr>files = Map.empty, stdout = [], calls = [], voice_queries = 0\<rparr>"

definition world_spoken :: world where
  "world_spoken = \<lparr>files = [temp_speech \<mapsto> Other voice_audio], stdout = [], calls = [],
     voice_queries = 0\<rparr>"

definition world_with :: "string \<Rightarrow> audio \<Rightarrow> world" where
  "world_with p a = \<lparr>files = [p \<mapsto> Wave a], stdout = [], calls = [], voice_queries = 0\<rparr>"

definition pargs_text :: "string \<Rightarrow> pargs" where
  "pargs_text out = \<lparr>p_text = ''CQ'', p_input = [], p_convert = False, p_validate = False,
     p_output = out, p_gain = 1, p_rate = RATE, p_narrator = NARRATOR\<rparr>"

definition pargs_convert :: pargs where
  "pargs_convert = \<lparr>p_text = [], p_input = ''in.wav'', p_convert = True, p_validate = False,
     p_output = ''.'', p_gain = 1, p_rate = RATE, p_narrator = NARRATOR\<rparr>"

definition pcm_audio :: "nat \<Rightarrow> int \<Rightarrow> int \<Rightarrow> int \<Rightarrow> audio" where
  "pcm_audio n r sw c = \<lparr>n_frames = n, frame_rate = r, sample_width = sw, channels = c,
     comp_type = ''NONE''\<rparr>"

text \<open>
  Stand-ins for \<^verbatim>\<open>int\<close> and \<^verbatim>\<open>float\<close> on the strings used below, with the values
  that Python reads from them.
\<close>

definition int_table :: "string \<Rightarrow> int option" where
  "int_table s = (if s = ''175'' then Some 175 else if s = ''500'' then Some 500 else None)"

definition float_table :: "string \<Rightarrow> pyfloat option" where
  "float_table s =
     (if s = ''0.01'' then Some (Fin FLOAT_0_01)
      else if s = ''1.0'' then Some (Fin 1)
      else if s = ''0.009'' then Some (Fin (5188146770730811 / 576460752303423488))
      else if s = ''1.01'' then Some (Fin (4548635623644201 / 4503599627370496))
      else if s = ''5'' then Some (Fin 5)
      else if s = ''nan'' then Some NaN
      else if s = ''inf'' then Some PInf
      else None)"

section \<open>Properties\<close>

subsection \<open>Shared facts\<close>

lemmas model_defs = validate_wav_def validate_wav_mod_def from_file_def wave_open_def
  pydub_width_def os_remove_def list_voices_def convert_to_wav_def
  export_def set_frame_rate_def set_sample_width_def set_channels_def remove_file_def
  text_to_speech_def generate_wav_def print_def called_def duration_seconds_def
  truthy_def Let_def

lemmas input_defs = env_ok_def env_no_outdir_def world_empty_def world_spoken_def world_with_def
  pargs_text_def
  pargs_convert_def pcm_audio_def voice_audio_def WAV_FORMAT_def FILE_NAME_def NARRATOR_def
  RATE_def temp_speech_def

lemma default_fields_agree: "bit_rate WAV_FORMAT = sampling_rate WAV_FORMAT"
  by (simp add: WAV_FORMAT_def)

lemma wait_two_polls: "wait_speaking (\<lambda>n. n < 2) 0 = Some 2"
  by (simp add: wait_speaking.simps)

lemma from_file_called: "from_file e f (called c w) = from_file e f w"
  by (simp add: from_file_def called_def)

lemma files_print: "files (print m w) = files w"
  by (simp add: print_def)

lemma calls_print: "calls (print m w) = calls w"
  by (simp add: print_def)

lemma calls_called: "calls (called c w) = calls w @ [c]"
  by (simp add: called_def)

lemma files_called: "files (called c w) = files w"
  by (simp add: called_def)

text \<open>What each operation does to the list of calls and to the files.\<close>

lemma validate_wav_mod_world:
  "validate_wav_mod e f w = (r, w') \<Longrightarrow> calls w' = calls w \<and> files w' = files w"
  by (auto simp: validate_wav_mod_def Let_def calls_print files_print split: sum.splits if_splits)

lemma validate_wav_world:
  "validate_wav e f wav_fmt w = (r, w') \<Longrightarrow>
     calls w' = calls w @ [Call_validate_wav f] \<and> files w' = files w"
  by (auto simp: validate_wav_def Let_def calls_print files_print calls_called files_called
      split: sum.splits if_splits prod.splits dest!: validate_wav_mod_world)

lemma remove_file_calls:
  "remove_file e f w = (r, w') \<Longrightarrow> calls w' = calls w @ [Call_remove_file f]"
  by (auto simp: remove_file_def os_remove_def Let_def calls_called split: if_splits sum.splits)

text \<open>
  After \<open>remove_file\<close> nothing is at the path, unless the operating system refuses the
  removal; when \<open>remove_file\<close> returns without an exception, nothing is at the path.
\<close>

lemma remove_file_gone:
  "\<not> undeletable e (resolve e f) \<Longrightarrow> remove_file e f w = (r, w') \<Longrightarrow>
     files w' (resolve e f) = None"
  by (auto simp: remove_file_def os_remove_def Let_def files_called split: if_splits sum.splits)

lemma remove_file_returned:
  "remove_file e f w = (Inr u, w') \<Longrightarrow> files w' (resolve e f) = None"
  by (auto simp: remove_file_def os_remove_def Let_def files_called split: if_splits sum.splits)

lemma remove_file_refused:
  "files w (resolve e f) = Some c \<Longrightarrow> undeletable e (resolve e f) \<Longrightarrow>
     remove_file e f w =
       (Inl (OSError (''Unable to remove file: '' @ f @ '' ('' @ strerror e f @ '')'')),
        called (Call_remove_file f) w)"
  by (auto simp: remove_file_def os_remove_def Let_def files_called)

lemma from_file_24_bit:
  "files w (resolve e f) = Some (Wave a) \<Longrightarrow> sample_width a = 3 \<Longrightarrow>
     map_sum id sample_width (from_file e f w) = Inr 4
     \<and> map_sum id sample_width (wave_open e f w) = Inr 3"
  by (simp add: from_file_def wave_open_def pydub_width_def)

lemma convert_to_wav_calls:
  "convert_to_wav e i out c b ch sw fr w = (r, w') \<Longrightarrow>
     calls w' = calls w @ [Call_convert_to_wav i out]"
  by (auto simp: convert_to_wav_def export_def Let_def calls_called split: sum.splits if_splits)

lemma text_to_speech_calls:
  "text_to_speech e t out n g r w = Some (res, w') \<Longrightarrow>
     calls w' = calls w @ [Call_text_to_speech out]"
  by (auto simp: text_to_speech_def list_voices_def Let_def calls_called
      split: if_splits option.splits)

lemma duration_seconds_cong:
  "n_frames a = n_frames b \<Longrightarrow> frame_rate a = frame_rate b \<Longrightarrow>
     duration_seconds a = duration_seconds b"
  by (simp add: duration_seconds_def)

lemma frame_rate_set_frame_rate: "frame_rate (set_frame_rate e sound r) = r"
  by (simp add: set_frame_rate_def)

lemma convert_to_wav_output:
  assumes "from_file e input_file w = Inr sound"
      and "writable e (resolve e output_file)"
  shows "convert_to_wav e input_file output_file codec bitrate ch sw fr w =
     (Inr (), (called (Call_convert_to_wav input_file output_file) w)
        \<lparr>files := (files w)(resolve e output_file \<mapsto>
           Wave (ffmpeg e codec bitrate
             (set_channels (set_sample_width (set_frame_rate e sound fr) sw) ch)))\<rparr>)"
  using assms by (simp add: convert_to_wav_def export_def from_file_called files_called)

lemma float_le_Fin_left: "float_le (Fin a) f \<longleftrightarrow> f = PInf \<or> (\<exists>x. f = Fin x \<and> a \<le> x)"
  by (cases f) simp_all

lemma float_le_Fin_right: "float_le f (Fin b) \<longleftrightarrow> f = NInf \<or> (\<exists>x. f = Fin x \<and> x \<le> b)"
  by (cases f) simp_all

lemma check_gain_accepts:
  "check_gain float_of v = Inr f \<longleftrightarrow>
     float_of v = Some f \<and> (\<exists>x. f = Fin x \<and> FLOAT_0_01 \<le> x \<and> x \<le> 1)"
  by (cases "float_of v")
     (auto simp: check_gain_def float_le_Fin_left float_le_Fin_right)

lemma check_gain_rejects:
  "(\<forall>g. check_gain float_of v \<noteq> Inr g) \<Longrightarrow> \<exists>m. check_gain float_of v = Inl (ArgumentTypeError m)"
  by (cases "float_of v") (auto simp: check_gain_def split: if_splits)

lemma check_gain_error:
  "check_gain float_of v = Inl err \<Longrightarrow> \<exists>m. err = ArgumentTypeError m"
  by (cases "float_of v") (auto simp: check_gain_def split: if_splits)

text \<open>Every error of the parse is an error of an argument, and a refused gain is one.\<close>

lemma take_action_error:
  "take_action voices float_of int_of x st = Inl err \<Longrightarrow> \<exists>a r. err = ArgumentError a r"
proof (cases st)
  case (Pair pa sn)
  assume "take_action voices float_of int_of x st = Inl err"
  with Pair show ?thesis
    by (cases x) (auto split: if_splits sum.splits option.splits error.splits
        dest: check_gain_error)
qed

lemma take_action_gain:
  assumes "\<forall>g. check_gain float_of v \<noteq> Inr g"
  shows "\<exists>err. take_action voices float_of int_of (Opt_gain v) st = Inl err"
proof -
  from assms obtain m where "check_gain float_of v = Inl (ArgumentTypeError m)"
    using check_gain_rejects by blast
  then show ?thesis by (cases st) simp
qed

lemma parse_opts_error:
  "parse_opts voices float_of int_of xs st = Inl err \<Longrightarrow> \<exists>a r. err = ArgumentError a r"
proof (induction xs arbitrary: st)
  case Nil
  then show ?case by simp
next
  case (Cons x xs)
  show ?case
  proof (cases "take_action voices float_of int_of x st")
    case (Inl err')
    with Cons.prems have "err' = err" by simp
    with Inl show ?thesis using take_action_error by blast
  next
    case (Inr st')
    with Cons.prems have "parse_opts voices float_of int_of xs st' = Inl err" by simp
    then show ?thesis by (rule Cons.IH)
  qed
qed

lemma parse_opts_rejects_gain:
  assumes "Opt_gain v \<in> set xs" and "\<forall>g. check_gain float_of v \<noteq> Inr g"
  shows "\<exists>err. parse_opts voices float_of int_of xs st = Inl err"
  using assms(1)
proof (induction xs arbitrary: st)
  case Nil
  then show ?case by simp
next
  case (Cons x xs)
  show ?case
  proof (cases "take_action voices float_of int_of x st")
    case (Inl err)
    then show ?thesis by simp
  next
    case (Inr st')
    have "x \<noteq> Opt_gain v"
      using Inr take_action_gain [OF assms(2), of voices int_of st] by auto
    with Cons.prems have "Opt_gain v \<in> set xs" by auto
    then obtain err where "parse_opts voices float_of int_of xs st' = Inl err"
      using Cons.IH by blast
    with Inr show ?thesis by simp
  qed
qed

lemma script_rejects_gain:
  assumes "Opt_gain v \<in> set argv" and "\<forall>g. check_gain float_of v \<noteq> Inr g"
  shows "\<exists>a r. script e float_of int_of argv w =
           Some (Inl (ArgumentError a r), w\<lparr>voice_queries := voice_queries w + 1\<rparr>)"
proof -
  obtain err where
    p: "parse_opts (availableVoices e) float_of int_of argv (pargs_default, []) = Inl err"
    using parse_opts_rejects_gain [OF assms] by blast
  then obtain a r where "err = ArgumentError a r"
    using parse_opts_error by blast
  with p show ?thesis
    by (simp add: script_def parse_args_def list_voices_def)
qed

lemma generate_wav_env_ok_succeeds:
  "map_option fst (generate_wav env_ok (pargs_text ''.'') WAV_FORMAT world_empty) = Some (Inr ())"
  by (simp add: model_defs input_defs wait_two_polls)

subsection \<open>Conversion followed by validation\<close>

text \<open>
  C1, as stated, fails: the converter changes the rate, the width and the channels and
  never shortens the sound. An input of eleven seconds (44100 Hz, stereo, 16 bit) is
  converted without error, and the validator rejects the output under the default
  profile as too long, 11 seconds against 10.
\<close>

theorem convert_then_validate_too_long:
  "fst (convert_to_wav env_ok ''in.wav'' ''./Speech.wav'' ''pcm_s16le'' ''16k'' 1 2 16000
          (world_with ''in.wav'' (pcm_audio 485100 44100 2 2))) = Inr ()
   \<and> fst (validate_wav env_ok ''./Speech.wav'' WAV_FORMAT
          (snd (convert_to_wav env_ok ''in.wav'' ''./Speech.wav'' ''pcm_s16le'' ''16k'' 1 2 16000
             (world_with ''in.wav'' (pcm_audio 485100 44100 2 2))))) = Inr False
   \<and> last (stdout (snd (validate_wav env_ok ''./Speech.wav'' WAV_FORMAT
          (snd (convert_to_wav env_ok ''in.wav'' ''./Speech.wav'' ''pcm_s16le'' ''16k'' 1 2 16000
             (world_with ''in.wav'' (pcm_audio 485100 44100 2 2))))))) = Too_long 11 10"
  by (simp add: model_defs input_defs)

text \<open>
  C1, amended. With a back end whose codec \<^verbatim>\<open>pcm_s16le\<close> writes uncompressed 16-bit
  samples, for every decodable input and every writable output path: when the sound
  resampled to 16000 Hz lasts at most ten seconds, \<open>convert_to_wav\<close> with its default
  targets succeeds and \<open>validate_wav\<close> of its output under the default profile returns
  \<open>True\<close>.
\<close>

theorem convert_then_validate_default:
  assumes "pcm_s16le_backend e"
      and "from_file e input_file w = Inr sound"
      and "writable e (resolve e output_file)"
      and "duration_seconds (set_frame_rate e sound 16000) \<le> 10"
  shows "\<exists>w'. convert_to_wav e input_file output_file ''pcm_s16le'' ''16k'' 1 2 16000 w = (Inr (), w')
           \<and> fst (validate_wav e output_file WAV_FORMAT w') = Inr True"
proof -
  define s3 where "s3 = set_channels (set_sample_width (set_frame_rate e sound 16000) 2) 1"
  define out where "out = s3\<lparr>sample_width := 2, comp_type := ''NONE''\<rparr>"
  define w' where "w' = (called (Call_convert_to_wav input_file output_file) w)
        \<lparr>files := (files w)(resolve e output_file \<mapsto> Wave out)\<rparr>"
  have conv: "convert_to_wav e input_file output_file ''pcm_s16le'' ''16k'' 1 2 16000 w = (Inr (), w')"
    using convert_to_wav_output [OF assms(2,3)] assms(1)
    by (simp add: w'_def out_def s3_def pcm_s16le_backend_def)
  have fr: "frame_rate out = 16000"
    by (simp add: out_def s3_def set_channels_def set_sample_width_def frame_rate_set_frame_rate)
  have nf: "n_frames out = n_frames (set_frame_rate e sound 16000)"
    by (simp add: out_def s3_def set_channels_def set_sample_width_def)
  have ch: "channels out = 1"
    by (simp add: out_def s3_def set_channels_def)
  have sw: "sample_width out = 2" and ct: "comp_type out = ''NONE''"
    by (simp_all add: out_def)
  have "duration_seconds out = duration_seconds (set_frame_rate e sound 16000)"
    by (rule duration_seconds_cong) (simp_all add: nf fr frame_rate_set_frame_rate)
  then have du: "duration_seconds out \<le> 10" using assms(4) by simp
  have rd: "from_file e output_file (called (Call_validate_wav output_file) w') = Inr out"
    by (simp add: from_file_called) (simp add: from_file_def w'_def out_def pydub_width_def)
  have wo: "wave_open e output_file (called (Call_validate_wav output_file) w') = Inr out"
    by (simp add: wave_open_def w'_def files_called)
  have "fst (validate_wav e output_file WAV_FORMAT w') = Inr True"
    using du
    by (simp add: validate_wav_def validate_wav_mod_def rd wo Let_def WAV_FORMAT_def fr ch sw ct)
  with conv show ?thesis by blast
qed

text \<open>The scenario of the specification: five seconds at 44100 Hz, stereo, 16 bit.\<close>

theorem convert_then_validate_default_witness:
  "pcm_s16le_backend env_ok
   \<and> from_file env_ok ''in.wav'' (world_with ''in.wav'' (pcm_audio 220500 44100 2 2))
       = Inr (pcm_audio 220500 44100 2 2)
   \<and> writable env_ok (resolve env_ok ''./Speech.wav'')
   \<and> duration_seconds (set_frame_rate env_ok (pcm_audio 220500 44100 2 2) 16000) \<le> 10
   \<and> (\<exists>w'. convert_to_wav env_ok ''in.wav'' ''./Speech.wav'' ''pcm_s16le'' ''16k'' 1 2 16000
               (world_with ''in.wav'' (pcm_audio 220500 44100 2 2)) = (Inr (), w')
           \<and> fst (validate_wav env_ok ''./Speech.wav'' WAV_FORMAT w') = Inr True)"
proof -
  have h1: "pcm_s16le_backend env_ok"
    by (simp add: pcm_s16le_backend_def env_ok_def)
  have h2: "from_file env_ok ''in.wav'' (world_with ''in.wav'' (pcm_audio 220500 44100 2 2))
              = Inr (pcm_audio 220500 44100 2 2)"
    by (simp add: from_file_def env_ok_def world_with_def pydub_width_def pcm_audio_def)
  have h3: "writable env_ok (resolve env_ok ''./Speech.wav'')"
    by (simp add: env_ok_def)
  have h4: "duration_seconds (set_frame_rate env_ok (pcm_audio 220500 44100 2 2) 16000) \<le> 10"
    by (simp add: duration_seconds_def set_frame_rate_def env_ok_def pcm_audio_def)
  from convert_then_validate_default [OF h1 h2 h3 h4] h1 h2 h3 h4 show ?thesis by blast
qed

subsection \<open>The checks of the validator\<close>

text \<open>
  C2. The code at a profile of 16 kHz and 8 bit and a file of 16000 Hz with samples of
  one byte, mono, uncompressed, one second long. The second check compares the frame rate
  16000 with \<open>bit_rate\<close> times 1000, that is 8000, and the validator returns \<open>False\<close>
  with \<^verbatim>\<open>File has wrong bit rate [16000 != 8000]\<close>; the validator with the expectations
  derived by the units accepts the file.
\<close>

theorem validate_wav_second_check_uses_bit_rate:
  "fst (validate_wav env_ok ''f.wav'' (WAV_FORMAT\<lparr>bit_rate := 8\<rparr>)
          (world_with ''f.wav'' (pcm_audio 16000 16000 1 1))) = Inr False
   \<and> last (stdout (snd (validate_wav env_ok ''f.wav'' (WAV_FORMAT\<lparr>bit_rate := 8\<rparr>)
          (world_with ''f.wav'' (pcm_audio 16000 16000 1 1))))) = Wrong_bit_rate 16000 8000
   \<and> fst (validate_wav_corrected env_ok ''f.wav'' (WAV_FORMAT\<lparr>bit_rate := 8\<rparr>)
          (world_with ''f.wav'' (pcm_audio 16000 16000 1 1))) = Inr True"
  by (simp add: model_defs input_defs validate_wav_corrected_def)

text \<open>
  C3. The code at a profile of 8 kHz and 16 bit and a file of 8000 Hz with samples of
  two bytes, mono, uncompressed, one second long: every field of the profile matches the
  file, and the validator returns \<open>False\<close>.
\<close>

theorem validate_wav_rejects_compliant_file:
  "complies_as_specified (WAV_FORMAT\<lparr>sampling_rate := 8\<rparr>) (pcm_audio 8000 8000 2 1)
   \<and> fst (validate_wav env_ok ''f.wav'' (WAV_FORMAT\<lparr>sampling_rate := 8\<rparr>)
          (world_with ''f.wav'' (pcm_audio 8000 8000 2 1))) = Inr False"
  by (simp add: model_defs input_defs complies_as_specified_def)

text \<open>
  C7. The code under the default profile at two files that each violate one field. Five
  seconds at 44100 Hz (16 bit, mono, uncompressed) violate the sample rate and are
  reported as \<^verbatim>\<open>File has wrong bit rate [44100 != 16000]\<close>; five seconds of 8-bit samples
  at 16000 Hz violate the bit depth and are reported as
  \<^verbatim>\<open>File has wrong sampling rate [1 != 2.0]\<close>. The stereo file of the claim is reported
  as \<^verbatim>\<open>File has wrong channel count[2 != 1]\<close>.
\<close>

theorem validate_wav_names_other_field:
  "last (stdout (snd (validate_wav env_ok ''f.wav'' WAV_FORMAT
           (world_with ''f.wav'' (pcm_audio 220500 44100 2 1))))) = Wrong_bit_rate 44100 16000
   \<and> last (stdout (snd (validate_wav env_ok ''f.wav'' WAV_FORMAT
           (world_with ''f.wav'' (pcm_audio 80000 16000 1 1))))) = Wrong_sampling_rate 1 2
   \<and> last (stdout (snd (validate_wav env_ok ''f.wav'' WAV_FORMAT
           (world_with ''f.wav'' (pcm_audio 80000 16000 2 2))))) = Wrong_channel_count 2 1"
  by (simp add: model_defs input_defs)

text \<open>
  C9. On the default profile both fields are 16, so the expectations that
  \<open>validate_wav\<close> derives crosswise (\<open>bit_rate\<close> times 1000 for the frame rate,
  \<open>sampling_rate\<close> over 8 for the sample width) are the ones derived by the units,
  16000 Hz and 2 bytes: for every file and every world the validator and the
  unit-corrected validator return the same value and leave the same world.
\<close>

theorem validate_wav_default_corrected:
  "validate_wav e file_name WAV_FORMAT w = validate_wav_corrected e file_name WAV_FORMAT w
   \<and> bit_rate WAV_FORMAT * 1000 = 16000 \<and> sampling_rate WAV_FORMAT * 1000 = 16000
   \<and> (of_int (sampling_rate WAV_FORMAT) :: rat) / 8 = 2 \<and> (of_int (bit_rate WAV_FORMAT) :: rat) / 8 = 2"
proof -
  have "validate_wav e file_name WAV_FORMAT w = validate_wav_corrected e file_name WAV_FORMAT w"
    unfolding validate_wav_def validate_wav_corrected_def default_fields_agree by (rule refl)
  then show ?thesis by (simp add: WAV_FORMAT_def)
qed

subsection \<open>The Generate workflow\<close>

text \<open>
  C4, as stated, fails: \<open>generate_wav\<close> has no handler, so an exception of the converter
  ends the run before \<open>remove_file\<close>. With an output directory that does not exist the
  synthesizer writes \<^verbatim>\<open>temp_speech.aiff\<close>, the export raises, \<open>remove_file\<close> is never
  called and the temporary file is still there when the run ends.
\<close>

theorem generate_wav_conversion_error_skips_cleanup:
  "map_option fst (generate_wav env_no_outdir (pargs_text ''missing'') WAV_FORMAT world_empty)
     = Some (Inl (FileNotFoundError ''missing/Speech.wav''))
   \<and> calls (snd (the (generate_wav env_no_outdir (pargs_text ''missing'') WAV_FORMAT world_empty)))
     = [Call_text_to_speech ''temp_speech.aiff'',
             Call_convert_to_wav ''temp_speech.aiff'' ''missing/Speech.wav'']
   \<and> files (snd (the (generate_wav env_no_outdir (pargs_text ''missing'') WAV_FORMAT world_empty)))
        ''temp_speech.aiff''
     = Some (Other voice_audio)"
  by (simp add: model_defs input_defs wait_two_polls)

text \<open>
  C4, amended. Whenever synthesis and conversion have returned without an exception,
  the run of \<open>generate_wav\<close> terminates and the cleanup step has been run, whatever the
  validation that follows returns or raises: \<open>remove_file\<close> has been called on
  \<^verbatim>\<open>{output}/temp_speech.aiff\<close>. When that path names the file the synthesizer wrote
  (the output directory is the working directory) and the operating system does not
  refuse the removal, the temporary artifact does not exist when the run ends.
\<close>

theorem generate_wav_cleanup_after_conversion:
  assumes "text_to_speech e (p_text pa) temp_speech NARRATOR (Some (p_gain pa)) (Some (p_rate pa)) w
             = Some (Inr (), w1)"
      and "convert_to_wav e temp_speech (p_output pa @ ''/'' @ FILE_NAME)
             ''pcm_s16le'' ''16k'' 1 2 16000 w1 = (Inr (), w2)"
  shows "\<exists>r w'. generate_wav e pa wav_fmt w = Some (r, w') \<and>
           Call_remove_file (p_output pa @ ''/'' @ temp_speech) \<in> set (calls w') \<and>
           (resolve e (p_output pa @ ''/'' @ temp_speech) = resolve e temp_speech \<longrightarrow>
            \<not> undeletable e (resolve e temp_speech) \<longrightarrow>
            files w' (resolve e temp_speech) = None)"
proof -
  let ?gone = "\<lambda>w'. resolve e (p_output pa @ ''/'' @ temp_speech) = resolve e temp_speech \<longrightarrow>
            \<not> undeletable e (resolve e temp_speech) \<longrightarrow>
            files w' (resolve e temp_speech) = None"
  obtain r3 w3 where s3: "remove_file e (p_output pa @ ''/'' @ temp_speech) w2 = (r3, w3)"
    by (cases "remove_file e (p_output pa @ ''/'' @ temp_speech) w2")
  obtain r4 w4 where s4: "validate_wav e (p_output pa @ ''/'' @ FILE_NAME) WAV_FORMAT w3 = (r4, w4)"
    by (cases "validate_wav e (p_output pa @ ''/'' @ FILE_NAME) WAV_FORMAT w3")
  have c3: "Call_remove_file (p_output pa @ ''/'' @ temp_speech) \<in> set (calls w3)"
    using remove_file_calls [OF s3] by simp
  have g3: "?gone w3"
    using remove_file_gone [OF _ s3] by auto
  have c4: "Call_remove_file (p_output pa @ ''/'' @ temp_speech) \<in> set (calls w4)"
    using validate_wav_world [OF s4] c3 by simp
  have g4: "?gone w4"
    using validate_wav_world [OF s4] g3 by simp
  show ?thesis
  proof (cases r3)
    case (Inl err)
    then have "generate_wav e pa wav_fmt w = Some (Inl err, w3)"
      using assms s3 by (simp add: generate_wav_def)
    then show ?thesis using c3 g3 by blast
  next
    case (Inr u)
    then have "generate_wav e pa wav_fmt w
                 = Some (case r4 of Inl err \<Rightarrow> Inl err | Inr _ \<Rightarrow> Inr (), w4)"
      using assms s3 s4 by (simp add: generate_wav_def split: sum.splits)
    then show ?thesis using c4 g4 by blast
  qed
qed

theorem generate_wav_cleanup_after_conversion_witness:
  "text_to_speech env_ok (p_text (pargs_text ''.'')) temp_speech NARRATOR
      (Some (p_gain (pargs_text ''.''))) (Some (p_rate (pargs_text ''.''))) world_empty
     = Some (Inr (), (called (Call_text_to_speech temp_speech) world_spoken)\<lparr>voice_queries := 1\<rparr>)
   \<and> convert_to_wav env_ok temp_speech (p_output (pargs_text ''.'') @ ''/'' @ FILE_NAME)
        ''pcm_s16le'' ''16k'' 1 2 16000
        ((called (Call_text_to_speech temp_speech) world_spoken)\<lparr>voice_queries := 1\<rparr>)
     = (Inr (), snd (convert_to_wav env_ok temp_speech (p_output (pargs_text ''.'') @ ''/'' @ FILE_NAME)
        ''pcm_s16le'' ''16k'' 1 2 16000
        ((called (Call_text_to_speech temp_speech) world_spoken)\<lparr>voice_queries := 1\<rparr>)))
   \<and> resolve env_ok (p_output (pargs_text ''.'') @ ''/'' @ temp_speech) = resolve env_ok temp_speech
   \<and> \<not> undeletable env_ok (resolve env_ok temp_speech)
   \<and> (\<exists>r w'. generate_wav env_ok (pargs_text ''.'') WAV_FORMAT world_empty = Some (r, w') \<and>
           Call_remove_file (p_output (pargs_text ''.'') @ ''/'' @ temp_speech) \<in> set (calls w') \<and>
           files w' (resolve env_ok temp_speech) = None)"
proof -
  have s1: "text_to_speech env_ok (p_text (pargs_text ''.'')) temp_speech NARRATOR
      (Some (p_gain (pargs_text ''.''))) (Some (p_rate (pargs_text ''.''))) world_empty
     = Some (Inr (), (called (Call_text_to_speech temp_speech) world_spoken)\<lparr>voice_queries := 1\<rparr>)"
    by (simp add: model_defs input_defs wait_two_polls)
  have "fst (convert_to_wav env_ok temp_speech (p_output (pargs_text ''.'') @ ''/'' @ FILE_NAME)
        ''pcm_s16le'' ''16k'' 1 2 16000
        ((called (Call_text_to_speech temp_speech) world_spoken)\<lparr>voice_queries := 1\<rparr>)) = Inr ()"
    by (simp add: model_defs input_defs)
  then have s2: "convert_to_wav env_ok temp_speech (p_output (pargs_text ''.'') @ ''/'' @ FILE_NAME)
        ''pcm_s16le'' ''16k'' 1 2 16000
        ((called (Call_text_to_speech temp_speech) world_spoken)\<lparr>voice_queries := 1\<rparr>)
     = (Inr (), snd (convert_to_wav env_ok temp_speech (p_output (pargs_text ''.'') @ ''/'' @ FILE_NAME)
        ''pcm_s16le'' ''16k'' 1 2 16000
        ((called (Call_text_to_speech temp_speech) world_spoken)\<lparr>voice_queries := 1\<rparr>)))"
    by (metis prod.collapse)
  have h3: "resolve env_ok (p_output (pargs_text ''.'') @ ''/'' @ temp_speech) = resolve env_ok temp_speech"
    by (simp add: input_defs)
  have h4: "\<not> undeletable env_ok (resolve env_ok temp_speech)"
    by (simp add: env_ok_def)
  from generate_wav_cleanup_after_conversion [OF s1 s2, of WAV_FORMAT] s1 s2 h3 h4 show ?thesis
    by blast
qed

text \<open>
  C5. The code with the output directory \<^verbatim>\<open>out\<close>, which exists and is writable. The
  synthesizer is given the path \<^verbatim>\<open>temp_speech.aiff\<close>, in the working directory, and
  \<open>remove_file\<close> is given \<^verbatim>\<open>out/temp_speech.aiff\<close>, where nothing is: the removal raises
  \<^verbatim>\<open>OSError\<close>, the validation is not reached and the temporary file stays where it was
  written.
\<close>

theorem generate_wav_removes_other_path:
  "map_option fst (generate_wav env_ok (pargs_text ''out'') WAV_FORMAT world_empty)
     = Some (Inl (OSError (''Unable to remove file: out/temp_speech.aiff ('' @
               no_such_file ''out/temp_speech.aiff'' @ '')'')))
   \<and> calls (snd (the (generate_wav env_ok (pargs_text ''out'') WAV_FORMAT world_empty)))
     = [Call_text_to_speech ''temp_speech.aiff'',
             Call_convert_to_wav ''temp_speech.aiff'' ''out/Speech.wav'',
             Call_remove_file ''out/temp_speech.aiff'']
   \<and> files (snd (the (generate_wav env_ok (pargs_text ''out'') WAV_FORMAT world_empty)))
        ''temp_speech.aiff''
     = Some (Other voice_audio)"
  by (simp add: model_defs input_defs wait_two_polls)

text \<open>
  C6, as stated, fails: in a successful run with the default output directory the
  temporary file is removed before the output is validated.
\<close>

theorem generate_wav_cleanup_precedes_validation:
  "map_option fst (generate_wav env_ok (pargs_text ''.'') WAV_FORMAT world_empty) = Some (Inr ())
   \<and> calls (snd (the (generate_wav env_ok (pargs_text ''.'') WAV_FORMAT world_empty)))
     = [Call_text_to_speech ''temp_speech.aiff'',
             Call_convert_to_wav ''temp_speech.aiff'' ''./Speech.wav'',
             Call_remove_file ''./temp_speech.aiff'',
             Call_validate_wav ''./Speech.wav'']"
  by (simp add: model_defs input_defs wait_two_polls)

text \<open>
  C6, amended. Every run of \<open>generate_wav\<close> that returns without an exception has made
  exactly four calls, in the order synthesis, conversion, cleanup, validation: the
  validation of the output starts when \<open>remove_file\<close> has returned and nothing is left at
  the path \<^verbatim>\<open>{output}/temp_speech.aiff\<close> that was given to it.
\<close>

theorem generate_wav_call_order:
  assumes "generate_wav e pa wav_fmt w = Some (Inr (), w')"
  shows "calls w' = calls w @
      [Call_text_to_speech temp_speech,
       Call_convert_to_wav temp_speech (p_output pa @ ''/'' @ FILE_NAME),
       Call_remove_file (p_output pa @ ''/'' @ temp_speech),
       Call_validate_wav (p_output pa @ ''/'' @ FILE_NAME)]
    \<and> (\<exists>w3 b. validate_wav e (p_output pa @ ''/'' @ FILE_NAME) WAV_FORMAT w3 = (Inr b, w')
          \<and> calls w3 = calls w @
              [Call_text_to_speech temp_speech,
               Call_convert_to_wav temp_speech (p_output pa @ ''/'' @ FILE_NAME),
               Call_remove_file (p_output pa @ ''/'' @ temp_speech)]
          \<and> files w3 (resolve e (p_output pa @ ''/'' @ temp_speech)) = None)"
proof -
  from assms obtain w1 w2 w3 b where
    s1: "text_to_speech e (p_text pa) temp_speech NARRATOR (Some (p_gain pa)) (Some (p_rate pa)) w
           = Some (Inr (), w1)" and
    s2: "convert_to_wav e temp_speech (p_output pa @ ''/'' @ FILE_NAME)
           ''pcm_s16le'' ''16k'' 1 2 16000 w1 = (Inr (), w2)" and
    s3: "remove_file e (p_output pa @ ''/'' @ temp_speech) w2 = (Inr (), w3)" and
    s4: "validate_wav e (p_output pa @ ''/'' @ FILE_NAME) WAV_FORMAT w3 = (Inr b, w')"
    by (auto simp: generate_wav_def split: option.splits prod.splits sum.splits)
  have "calls w1 = calls w @ [Call_text_to_speech temp_speech]"
    using s1 by (rule text_to_speech_calls)
  moreover have "calls w2 = calls w1 @ [Call_convert_to_wav temp_speech (p_output pa @ ''/'' @ FILE_NAME)]"
    using s2 by (rule convert_to_wav_calls)
  moreover have "calls w3 = calls w2 @ [Call_remove_file (p_output pa @ ''/'' @ temp_speech)]"
    using s3 by (rule remove_file_calls)
  ultimately have c3: "calls w3 = calls w @
      [Call_text_to_speech temp_speech,
       Call_convert_to_wav temp_speech (p_output pa @ ''/'' @ FILE_NAME),
       Call_remove_file (p_output pa @ ''/'' @ temp_speech)]"
    by simp
  have c4: "calls w' = calls w3 @ [Call_validate_wav (p_output pa @ ''/'' @ FILE_NAME)]"
    using s4 by (simp add: validate_wav_world)
  have g3: "files w3 (resolve e (p_output pa @ ''/'' @ temp_speech)) = None"
    using s3 by (rule remove_file_returned)
  from c3 c4 g3 s4 show ?thesis by auto
qed

theorem generate_wav_call_order_witness:
  "\<exists>w'. generate_wav env_ok (pargs_text ''.'') WAV_FORMAT world_empty = Some (Inr (), w') \<and>
     calls w' = calls world_empty @
       [Call_text_to_speech temp_speech,
        Call_convert_to_wav temp_speech (p_output (pargs_text ''.'') @ ''/'' @ FILE_NAME),
        Call_remove_file (p_output (pargs_text ''.'') @ ''/'' @ temp_speech),
        Call_validate_wav (p_output (pargs_text ''.'') @ ''/'' @ FILE_NAME)] \<and>
     (\<exists>w3 b. validate_wav env_ok (p_output (pargs_text ''.'') @ ''/'' @ FILE_NAME) WAV_FORMAT w3
                = (Inr b, w')
          \<and> calls w3 = calls world_empty @
              [Call_text_to_speech temp_speech,
               Call_convert_to_wav temp_speech (p_output (pargs_text ''.'') @ ''/'' @ FILE_NAME),
               Call_remove_file (p_output (pargs_text ''.'') @ ''/'' @ temp_speech)]
          \<and> files w3 (resolve env_ok (p_output (pargs_text ''.'') @ ''/'' @ temp_speech)) = None)"
proof -
  from generate_wav_env_ok_succeeds obtain w' where
    r: "generate_wav env_ok (pargs_text ''.'') WAV_FORMAT world_empty = Some (Inr (), w')"
    by auto
  from generate_wav_call_order [OF r] r show ?thesis by blast
qed

subsection \<open>Argument validation\<close>

text \<open>
  C8. \<open>check_gain\<close> returns the parsed float exactly when it is a finite value between
  the double 0.01 and 1.0, both included, and raises \<^verbatim>\<open>ArgumentTypeError\<close> otherwise:
  the doubles of \<^verbatim>\<open>0.01\<close> and \<^verbatim>\<open>1.0\<close> are accepted, those of \<^verbatim>\<open>0.009\<close> and \<^verbatim>\<open>1.01\<close>
  and a string that is no float are rejected. A command line with a gain that
  \<open>check_gain\<close> rejects ends the program in \<^verbatim>\<open>parse_args\<close> with the error of an argument,
  before any branch of \<open>main\<close>: no file has been read, written or removed, nothing has
  been printed, none of synthesis, conversion, cleanup and validation has been called;
  the voices of the platform have been enumerated once, while the parser was built.
\<close>

theorem check_gain_range:
  "(check_gain float_of v = Inr f \<longleftrightarrow>
      float_of v = Some f \<and> (\<exists>x. f = Fin x \<and> FLOAT_0_01 \<le> x \<and> x \<le> 1))
   \<and> ((\<forall>g. check_gain float_of v \<noteq> Inr g) \<longrightarrow>
        (\<exists>m. check_gain float_of v = Inl (ArgumentTypeError m)))
   \<and> (float_of v = Some (Fin FLOAT_0_01) \<longrightarrow> check_gain float_of v = Inr (Fin FLOAT_0_01))
   \<and> (float_of v = Some (Fin 1) \<longrightarrow> check_gain float_of v = Inr (Fin 1))
   \<and> (float_of v = Some (Fin (5188146770730811 / 576460752303423488)) \<longrightarrow>
        check_gain float_of v = Inl (ArgumentTypeError ''Gain must be between 0.01 and 1.0''))
   \<and> (float_of v = Some (Fin (4548635623644201 / 4503599627370496)) \<longrightarrow>
        check_gain float_of v = Inl (ArgumentTypeError ''Gain must be between 0.01 and 1.0''))
   \<and> (float_of v = None \<longrightarrow>
        check_gain float_of v = Inl (ArgumentTypeError (v @ '' is an invalid gain value. Use a float.'')))
   \<and> (Opt_gain v \<in> set argv \<longrightarrow> (\<forall>g. check_gain float_of v \<noteq> Inr g) \<longrightarrow>
        (\<exists>a r. script e float_of int_of argv w =
           Some (Inl (ArgumentError a r), w\<lparr>voice_queries := voice_queries w + 1\<rparr>)))"
proof (intro conjI)
  show "check_gain float_of v = Inr f \<longleftrightarrow>
      float_of v = Some f \<and> (\<exists>x. f = Fin x \<and> FLOAT_0_01 \<le> x \<and> x \<le> 1)"
    by (rule check_gain_accepts)
  show "(\<forall>g. check_gain float_of v \<noteq> Inr g) \<longrightarrow>
        (\<exists>m. check_gain float_of v = Inl (ArgumentTypeError m))"
    using check_gain_rejects by blast
  show "Opt_gain v \<in> set argv \<longrightarrow> (\<forall>g. check_gain float_of v \<noteq> Inr g) \<longrightarrow>
        (\<exists>a r. script e float_of int_of argv w =
           Some (Inl (ArgumentError a r), w\<lparr>voice_queries := voice_queries w + 1\<rparr>))"
    using script_rejects_gain by blast
qed (simp_all add: check_gain_def FLOAT_0_01_def)

text \<open>
  The boundary values, and the command line \<^verbatim>\<open>-t CQ -g 5\<close>: the run ends with the error
  of the argument \<^verbatim>\<open>-g/--gain\<close>, with no call made and no file written.
\<close>

theorem check_gain_range_witness:
  "check_gain float_table ''0.01'' = Inr (Fin FLOAT_0_01)
   \<and> check_gain float_table ''1.0'' = Inr (Fin 1)
   \<and> check_gain float_table ''0.009'' = Inl (ArgumentTypeError ''Gain must be between 0.01 and 1.0'')
   \<and> check_gain float_table ''1.01'' = Inl (ArgumentTypeError ''Gain must be between 0.01 and 1.0'')
   \<and> check_gain float_table ''abc'' = Inl (ArgumentTypeError ''abc is an invalid gain value. Use a float.'')
   \<and> (\<exists>m. check_gain float_table ''nan'' = Inl (ArgumentTypeError m))
   \<and> Opt_gain ''5'' \<in> set [Opt_text ''CQ'', Opt_gain ''5'']
   \<and> (\<forall>g. check_gain float_table ''5'' \<noteq> Inr g)
   \<and> (\<exists>a r. script env_ok float_table int_table [Opt_text ''CQ'', Opt_gain ''5''] world_empty =
           Some (Inl (ArgumentError a r),
                 world_empty\<lparr>voice_queries := voice_queries world_empty + 1\<rparr>))
   \<and> script env_ok float_table int_table [Opt_text ''CQ'', Opt_gain ''5''] world_empty =
         Some (Inl (ArgumentError ''-g/--gain'' (Type_error ''Gain must be between 0.01 and 1.0'')),
               world_empty\<lparr>voice_queries := 1\<rparr>)"
proof -
  have t1: "float_table ''0.01'' = Some (Fin FLOAT_0_01)" by (simp add: float_table_def)
  have t2: "float_table ''1.0'' = Some (Fin 1)" by (simp add: float_table_def)
  have t3: "float_table ''0.009'' = Some (Fin (5188146770730811 / 576460752303423488))"
    by (simp add: float_table_def)
  have t4: "float_table ''1.01'' = Some (Fin (4548635623644201 / 4503599627370496))"
    by (simp add: float_table_def)
  have t5: "float_table ''abc'' = None" by (simp add: float_table_def)
  have t6: "float_table ''nan'' = Some NaN" by (simp add: float_table_def)
  have t7: "float_table ''5'' = Some (Fin 5)" by (simp add: float_table_def)
  have n: "\<forall>g. check_gain float_table ''nan'' \<noteq> Inr g"
    using check_gain_range [of float_table "''nan''"] t6 by auto
  have n5: "\<forall>g. check_gain float_table ''5'' \<noteq> Inr g"
    using check_gain_range [of float_table "''5''"] t7 by auto
  have m5: "Opt_gain ''5'' \<in> set [Opt_text ''CQ'', Opt_gain ''5'']" by simp
  have run: "script env_ok float_table int_table [Opt_text ''CQ'', Opt_gain ''5''] world_empty =
         Some (Inl (ArgumentError ''-g/--gain'' (Type_error ''Gain must be between 0.01 and 1.0'')),
               world_empty\<lparr>voice_queries := 1\<rparr>)"
    by (simp add: script_def parse_args_def list_voices_def pargs_default_def check_gain_def t7
        FLOAT_0_01_def world_empty_def env_ok_def)
  have boundaries: "check_gain float_table ''0.01'' = Inr (Fin FLOAT_0_01)
   \<and> check_gain float_table ''1.0'' = Inr (Fin 1)
   \<and> check_gain float_table ''0.009'' = Inl (ArgumentTypeError ''Gain must be between 0.01 and 1.0'')
   \<and> check_gain float_table ''1.01'' = Inl (ArgumentTypeError ''Gain must be between 0.01 and 1.0'')
   \<and> check_gain float_table ''abc'' = Inl (ArgumentTypeError ''abc is an invalid gain value. Use a float.'')
   \<and> (\<exists>m. check_gain float_table ''nan'' = Inl (ArgumentTypeError m))"
    using check_gain_range [of float_table "''0.01''"] check_gain_range [of float_table "''1.0''"]
      check_gain_range [of float_table "''0.009''"] check_gain_range [of float_table "''1.01''"]
      check_gain_range [of float_table "''abc''"] check_gain_range [of float_table "''nan''"]
      t1 t2 t3 t4 t5 n
    by simp
  have rejected: "\<exists>a r. script env_ok float_table int_table [Opt_text ''CQ'', Opt_gain ''5''] world_empty =
           Some (Inl (ArgumentError a r),
                 world_empty\<lparr>voice_queries := voice_queries world_empty + 1\<rparr>)"
    using check_gain_range [of float_table "''5''" _ "[Opt_text ''CQ'', Opt_gain ''5'']"
        env_ok int_table world_empty] m5 n5
    by blast
  from boundaries m5 n5 rejected run show ?thesis by blast
qed

subsection \<open>The ConvertOnly workflow\<close>

text \<open>
  C10. When \<open>main\<close> takes the conversion branch (no text, an input file, the convert
  flag), a run with other values of gain, rate and narrator is the same run: the same
  result and the same world. The branch is \<open>convert_to_wav\<close> with the targets 16000 Hz,
  two bytes, one channel and the codec \<^verbatim>\<open>pcm_s16le\<close>, and with a back end that writes
  this codec as uncompressed 16-bit samples the output of every successful run has this
  format.
\<close>

theorem convert_only_ignores_gain_rate_narrator:
  assumes "p_text pa = []" and "p_input pa \<noteq> []" and "\<not> p_validate pa" and "p_convert pa"
  shows "main e (pa\<lparr>p_gain := g, p_rate := r, p_narrator := n\<rparr>) w = main e pa w
    \<and> main e pa w = Some (convert_to_wav e (p_input pa) (p_output pa @ ''/'' @ FILE_NAME)
                          ''pcm_s16le'' ''16k'' 1 2 16000 w)
    \<and> (\<forall>w'. pcm_s16le_backend e \<longrightarrow> main e pa w = Some (Inr (), w') \<longrightarrow>
          (\<exists>a. files w' (resolve e (p_output pa @ ''/'' @ FILE_NAME)) = Some (Wave a)
             \<and> frame_rate a = 16000 \<and> sample_width a = 2 \<and> channels a = 1
             \<and> comp_type a = ''NONE''))"
proof (intro conjI allI impI)
  show m: "main e pa w = Some (convert_to_wav e (p_input pa) (p_output pa @ ''/'' @ FILE_NAME)
                          ''pcm_s16le'' ''16k'' 1 2 16000 w)"
    using assms by (simp add: main_def)
  show "main e (pa\<lparr>p_gain := g, p_rate := r, p_narrator := n\<rparr>) w = main e pa w"
    using assms by (simp add: main_def)
  fix w'
  assume b: "pcm_s16le_backend e" and ok: "main e pa w = Some (Inr (), w')"
  from ok m have c: "convert_to_wav e (p_input pa) (p_output pa @ ''/'' @ FILE_NAME)
                          ''pcm_s16le'' ''16k'' 1 2 16000 w = (Inr (), w')"
    by simp
  then obtain sound where
    w': "w' = (called (Call_convert_to_wav (p_input pa) (p_output pa @ ''/'' @ FILE_NAME)) w)
        \<lparr>files := (files w)(resolve e (p_output pa @ ''/'' @ FILE_NAME) \<mapsto>
           Wave (ffmpeg e ''pcm_s16le'' ''16k''
             (set_channels (set_sample_width (set_frame_rate e sound 16000) 2) 1)))\<rparr>"
    by (auto simp: convert_to_wav_def export_def from_file_called files_called Let_def
        split: sum.splits if_splits)
  show "\<exists>a. files w' (resolve e (p_output pa @ ''/'' @ FILE_NAME)) = Some (Wave a)
             \<and> frame_rate a = 16000 \<and> sample_width a = 2 \<and> channels a = 1
             \<and> comp_type a = ''NONE''"
    using b
    by (simp add: w' pcm_s16le_backend_def set_channels_def set_sample_width_def
        frame_rate_set_frame_rate)
qed

theorem convert_only_ignores_gain_rate_narrator_witness:
  "p_text pargs_convert = [] \<and> p_input pargs_convert \<noteq> [] \<and> \<not> p_validate pargs_convert
   \<and> p_convert pargs_convert \<and> pcm_s16le_backend env_ok
   \<and> main env_ok (pargs_convert\<lparr>p_gain := 1 / 2, p_rate := 120, p_narrator := ''Fred''\<rparr>)
        (world_with ''in.wav'' (pcm_audio 220500 44100 2 2))
     = main env_ok pargs_convert (world_with ''in.wav'' (pcm_audio 220500 44100 2 2))
   \<and> (\<exists>w' a. main env_ok pargs_convert (world_with ''in.wav'' (pcm_audio 220500 44100 2 2))
               = Some (Inr (), w')
        \<and> files w' (resolve env_ok (p_output pargs_convert @ ''/'' @ FILE_NAME)) = Some (Wave a)
        \<and> frame_rate a = 16000 \<and> sample_width a = 2 \<and> channels a = 1 \<and> comp_type a = ''NONE'')"
proof -
  have h1: "p_text pargs_convert = []" and h2: "p_input pargs_convert \<noteq> []"
    and h3: "\<not> p_validate pargs_convert" and h4: "p_convert pargs_convert"
    by (simp_all add: pargs_convert_def)
  have b: "pcm_s16le_backend env_ok"
    by (simp add: pcm_s16le_backend_def env_ok_def)
  have "map_option fst (main env_ok pargs_convert (world_with ''in.wav'' (pcm_audio 220500 44100 2 2)))
          = Some (Inr ())"
    by (simp add: main_def model_defs input_defs)
  then obtain w' where
    ok: "main env_ok pargs_convert (world_with ''in.wav'' (pcm_audio 220500 44100 2 2))
           = Some (Inr (), w')"
    by auto
  from convert_only_ignores_gain_rate_narrator [where pa = pargs_convert and e = env_ok
      and g = "1 / 2" and r = 120 and n = "''Fred''"
      and w = "world_with ''in.wav'' (pcm_audio 220500 44100 2 2)", OF h1 h2 h3 h4]
    h1 h2 h3 h4 b ok
  show ?thesis by blast
qed

end
